theory Spec2Isabelle
  imports Main
begin

section \<open>Values exchanged with the external identity client\<close>

text \<open>
  A value that a JavaScript \<open>throw\<close>, a rejected promise or the \<open>onError\<close> callback hands
  over. \<open>ThrownString s\<close> is the string \<open>s\<close>. \<open>ThrownValue m r\<close> is any other value \<open>e\<close>.
  \<open>m\<close> is what reading \<open>e?.message\<close> gives: \<open>Inr (Some x)\<close> the string \<open>x\<close>, \<open>Inr None\<close>
  \<open>undefined\<close> or \<open>null\<close>, and \<open>Inl t\<close> when the read throws \<open>t\<close> (a getter). \<open>r\<close> is what
  \<open>String(e)\<close> gives: \<open>Inr\<close> the rendering, and \<open>Inl t\<close> when the conversion throws \<open>t\<close>, as
  it does for an object without \<open>toString\<close> such as \<open>Object.create(null)\<close>. So
  \<open>new Error("x")\<close> is \<open>ThrownValue (Inr (Some ''x'')) (Inr ''Error: x'')\<close> and \<open>undefined\<close>
  is \<open>ThrownValue (Inr None) (Inr ''undefined'')\<close>. A \<open>message\<close> that is neither
  \<open>undefined\<close> nor \<open>null\<close> is taken to be a string, as the type of the error cell says.
\<close>

datatype thrown = ThrownString string | ThrownValue "thrown + string option" "thrown + string"

text \<open>
  The result of a call, or of an awaited promise: \<open>await\<close> yields the value of a
  fulfilled promise and rethrows the reason of a rejected one.
\<close>

datatype 'a completion = Returns 'a | Throws thrown

text \<open>The opaque \<open>AuthClient\<close> handle, and an \<open>Identity\<close> as far as \<open>principalText\<close> looks at it.\<close>

datatype AuthClient = AuthClient nat

datatype principal = Principal (toText: "string completion")

text \<open>
  \<open>getPrincipal\<close> is \<open>None\<close> for an identity without that method; otherwise the call
  throws or returns a principal (\<open>Returns None\<close>: a falsy result).
\<close>

datatype identity = Identity (getPrincipal: "principal option completion option")

text \<open>
  \<open>e?.message ?? String(e)\<close>, the argument of \<open>setError\<close> in the \<open>catch\<close> blocks: \<open>Inr\<close> the
  text, \<open>Inl t\<close> when evaluating the expression throws \<open>t\<close>. A string has no \<open>message\<close>
  and renders as itself.
\<close>

definition catch_message :: "thrown \<Rightarrow> thrown + string" where
  "catch_message e =
     (case e of
        ThrownString s \<Rightarrow> Inr s
      | ThrownValue m r \<Rightarrow>
          (case m of Inl t \<Rightarrow> Inl t | Inr (Some x) \<Rightarrow> Inr x | Inr None \<Rightarrow> r))"

text \<open>\<open>typeof err === 'string' ? err : (err as Error)?.message ?? String(err)\<close>, in \<open>onError\<close>.\<close>

definition onError_message :: "thrown \<Rightarrow> thrown + string" where
  "onError_message err =
     (case err of
        ThrownString s \<Rightarrow> Inr s
      | ThrownValue m r \<Rightarrow>
          (case m of Inl t \<Rightarrow> Inl t | Inr (Some x) \<Rightarrow> Inr x | Inr None \<Rightarrow> r))"

section \<open>The state of \<open>InternetIdentityProvider\<close>\<close>

text \<open>
  The four \<open>useState\<close> cells and the \<open>mounted\<close> ref. \<open>writes\<close> records every call of a
  state setter, in order, so that "no state field is written" can be told apart from
  "a field was written with the value it already had".
\<close>

datatype state_write =
    SetClient "AuthClient option"
  | SetIdentity "identity option"
  | SetInitializing bool
  | SetError "string option"

record state =
  client :: "AuthClient option"
  identity :: "identity option"
  isInitializing :: bool
  error :: "string option"
  mounted :: bool
  writes :: "state_write list"

definition initial_state :: state where
  "initial_state =
     \<lparr>client = None, identity = None, isInitializing = True, error = None,
      mounted = True, writes = []\<rparr>"

definition setClient :: "AuthClient option \<Rightarrow> state \<Rightarrow> state" where
  "setClient c s = s\<lparr>client := c, writes := writes s @ [SetClient c]\<rparr>"

definition setIdentity :: "identity option \<Rightarrow> state \<Rightarrow> state" where
  "setIdentity i s = s\<lparr>identity := i, writes := writes s @ [SetIdentity i]\<rparr>"

definition setInitializing :: "bool \<Rightarrow> state \<Rightarrow> state" where
  "setInitializing b s = s\<lparr>isInitializing := b, writes := writes s @ [SetInitializing b]\<rparr>"

definition setError :: "string option \<Rightarrow> state \<Rightarrow> state" where
  "setError e s = s\<lparr>error := e, writes := writes s @ [SetError e]\<rparr>"

text \<open>The setter calls made between an earlier state and a later one.\<close>

definition new_writes :: "state \<Rightarrow> state \<Rightarrow> state_write list" where
  "new_writes s s' = drop (length (writes s)) (writes s')"

text \<open>Whether a setter call is a call of \<open>setInitializing\<close>.\<close>

fun is_SetInitializing :: "state_write \<Rightarrow> bool" where
  "is_SetInitializing (SetInitializing b) = True"
| "is_SetInitializing w = False"

text \<open>
  The cleanup function of the effect: \<open>mounted.current = false\<close>. At an \<open>await\<close> the task
  is suspended and the cleanup may run before it resumes; \<open>suspend td\<close> is that
  suspension, \<open>td\<close> telling whether the cleanup ran meanwhile.
\<close>

definition teardown :: "state \<Rightarrow> state" where
  "teardown s = s\<lparr>mounted := False\<rparr>"

definition suspend :: "bool \<Rightarrow> state \<Rightarrow> state" where
  "suspend td s = (if td then teardown s else s)"

text \<open>How the promise returned by an operation ends; \<open>Pending\<close>: it is never settled.\<close>

datatype outcome = Fulfilled | Rejected thrown | Pending

section \<open>\<open>readSession\<close>\<close>

text \<open>
  The \<open>catch\<close> block of \<open>readSession\<close>. When the argument of \<open>setError\<close> throws, neither
  setter is called and the throw leaves the function: its promise is rejected.
\<close>

definition readSession_catch :: "thrown \<Rightarrow> state \<Rightarrow> outcome \<times> state" where
  "readSession_catch e s =
     (if \<not> mounted s then (Fulfilled, s)
      else
        (case catch_message e of
           Inl t \<Rightarrow> (Rejected t, s)
         | Inr m \<Rightarrow> (Fulfilled, setIdentity None (setError (Some m) s))))"

text \<open>
  \<open>readSession\<close> from the point where \<open>await c.isAuthenticated()\<close> resumes. \<open>authed\<close> is
  what the awaited call gave and \<open>got\<close> what the synchronous \<open>c.getIdentity()\<close> gives.
\<close>

definition readSession_resume ::
  "bool completion \<Rightarrow> identity completion \<Rightarrow> state \<Rightarrow> outcome \<times> state" where
  "readSession_resume authed got s =
     (case authed of
        Returns a \<Rightarrow>
          if \<not> mounted s then (Fulfilled, s)
          else if a then
            (case got of
               Returns i \<Rightarrow> (Fulfilled, setIdentity (Some i) s)
             | Throws e \<Rightarrow> readSession_catch e s)
          else (Fulfilled, setIdentity None s)
      | Throws e \<Rightarrow> readSession_catch e s)"

text \<open>What the handle answers during one run of \<open>readSession\<close>, and whether the cleanup runs
  while the run is suspended.\<close>

record session_reply =
  rs_teardown :: bool
  rs_isAuthenticated :: "bool completion"
  rs_getIdentity :: "identity completion"

text \<open>
  \<open>readSession\<close>: the state it leaves and how its promise ends. The answers of the
  handle \<open>c\<close> are those of the reply.
\<close>

definition readSession :: "AuthClient \<Rightarrow> session_reply \<Rightarrow> state \<Rightarrow> outcome \<times> state" where
  "readSession c r s =
     readSession_resume (rs_isAuthenticated r) (rs_getIdentity r) (suspend (rs_teardown r) s)"

section \<open>The effect that initialises the controller\<close>

definition initialize_finally :: "state \<Rightarrow> state" where
  "initialize_finally s = (if mounted s then setInitializing False s else s)"

text \<open>
  The \<open>catch\<close> block of the asynchronous block. When the argument of \<open>setError\<close> throws,
  \<open>setError\<close> is not called; the \<open>finally\<close> block runs all the same.
\<close>

definition initialize_catch :: "thrown \<Rightarrow> state \<Rightarrow> state" where
  "initialize_catch e s =
     (if \<not> mounted s then s
      else (case catch_message e of Inl t \<Rightarrow> s | Inr m \<Rightarrow> setError (Some m) s))"

text \<open>
  The effect body: \<open>mounted.current = true\<close>, then the asynchronous block. \<open>td\<close> tells
  whether the cleanup runs while \<open>AuthClient.create()\<close> is awaited, \<open>created\<close> is what that
  call gives, \<open>r\<close> is the reply to the session read, and \<open>td'\<close> tells whether the cleanup
  runs between the end of \<open>readSession\<close> and the resumption of \<open>await readSession(c)\<close>.
  A \<open>return\<close> inside \<open>try\<close> or \<open>catch\<close> still runs the \<open>finally\<close> block. The promise of the
  block is discarded by the effect, so only the state is returned.
\<close>

definition initialize ::
  "bool \<Rightarrow> AuthClient completion \<Rightarrow> session_reply \<Rightarrow> bool \<Rightarrow> state \<Rightarrow> state" where
  "initialize td created r td' s0 =
     (let s = suspend td (s0\<lparr>mounted := True\<rparr>) in
      case created of
        Returns c \<Rightarrow>
          if \<not> mounted s then initialize_finally s
          else
            (case readSession c r (setClient (Some c) s) of
               (Rejected t, s1) \<Rightarrow> initialize_finally (initialize_catch t (suspend td' s1))
             | (settled, s1) \<Rightarrow> initialize_finally (suspend td' s1))
      | Throws e \<Rightarrow> initialize_finally (initialize_catch e s))"

section \<open>\<open>login\<close>, \<open>logout\<close>, \<open>refresh\<close>\<close>

text \<open>
  A callback slot of the options object holds either the arrow function that \<open>login\<close>
  itself builds or a function of the caller (told apart by a tag).
\<close>

datatype callback = ControllerCallback | CallerCallback nat

text \<open>
  A property of an options object: absent, present and holding \<open>undefined\<close> (or \<open>null\<close>),
  or present and holding a value.
\<close>

datatype 'a property = Absent | Undefined | Value 'a

text \<open>\<open>Partial<AuthClientLoginOptions>\<close>, as far as \<open>login\<close> looks at it.\<close>

record AuthClientLoginOptions =
  identityProvider :: "string property"
  maxTimeToLive :: "int property"
  onSuccess :: "callback property"
  onError :: "callback property"

text \<open>
  Object spread \<open>{ ...base, ...over }\<close>: every property present in \<open>over\<close> replaces that of
  \<open>base\<close>, also one that holds \<open>undefined\<close>.
\<close>

definition spread :: "AuthClientLoginOptions \<Rightarrow> AuthClientLoginOptions \<Rightarrow> AuthClientLoginOptions" where
  "spread base over =
     \<lparr>identityProvider =
        (case identityProvider over of Absent \<Rightarrow> identityProvider base | p \<Rightarrow> p),
      maxTimeToLive = (case maxTimeToLive over of Absent \<Rightarrow> maxTimeToLive base | p \<Rightarrow> p),
      onSuccess = (case onSuccess over of Absent \<Rightarrow> onSuccess base | p \<Rightarrow> p),
      onError = (case onError over of Absent \<Rightarrow> onError base | p \<Rightarrow> p)\<rparr>"

text \<open>
  The object \<open>login\<close> passes to \<open>client.login\<close>. \<open>opts\<close> is \<open>None\<close> when \<open>login\<close> is called
  without options. \<open>resolved\<close> is what \<open>resolveIdentityProvider()\<close> returns; it is used
  when \<open>opts?.identityProvider\<close> is \<open>undefined\<close> or \<open>null\<close>. The caller's options are spread
  last.
\<close>

definition login_options :: "AuthClientLoginOptions option \<Rightarrow> string \<Rightarrow> AuthClientLoginOptions" where
  "login_options opts resolved =
     (let provider =
            (case opts of
               None \<Rightarrow> resolved
             | Some p \<Rightarrow> (case identityProvider p of Value u \<Rightarrow> u | other \<Rightarrow> resolved));
          base = \<lparr>identityProvider = Value provider,
                  maxTimeToLive = Value (8 * 60 * 60 * 1000000000),
                  onSuccess = Value ControllerCallback,
                  onError = Value ControllerCallback\<rparr>
      in case opts of None \<Rightarrow> base | Some p \<Rightarrow> spread base p)"

text \<open>
  What the external client does with a \<open>login\<close> call: it calls the \<open>onSuccess\<close> property of
  the options it was given, or their \<open>onError\<close> property with an error, or the promise
  of \<open>client.login\<close> itself is rejected. A property that holds no function is not
  called.
\<close>

datatype handshake = HandshakeSuccess | HandshakeError thrown | LoginRejects thrown

text \<open>
  The state the \<open>onError\<close> arrow function that \<open>login\<close> builds leaves. After \<open>setError\<close> it
  rejects with \<open>err\<close>; when the argument of \<open>setError\<close> throws, the function ends there,
  with no setter called and the promise not rejected.
\<close>

definition login_onError :: "thrown \<Rightarrow> state \<Rightarrow> state" where
  "login_onError err s =
     (case onError_message err of Inl t \<Rightarrow> s | Inr m \<Rightarrow> setError (Some m) s)"

text \<open>
  \<open>login\<close>. \<open>td\<close>: whether the cleanup runs while the handshake is pending; \<open>h\<close>: what the
  external client does; \<open>r\<close>: the reply to the session read of the \<open>onSuccess\<close> arrow.
  The \<open>client\<close> read is the one of the state the call starts in. The \<open>onSuccess\<close> arrow
  resolves after the session read and rejects with what the session read throws.
\<close>

definition login ::
  "AuthClientLoginOptions option \<Rightarrow> string \<Rightarrow> bool \<Rightarrow> handshake \<Rightarrow> session_reply \<Rightarrow> state
     \<Rightarrow> outcome \<times> state" where
  "login opts resolved td h r s0 =
     (let s = setError None s0 in
      case client s0 of
        None \<Rightarrow> (Fulfilled, setError (Some ''AuthClient not ready'') s)
      | Some c \<Rightarrow>
          (let args = login_options opts resolved;
               s1 = suspend td s
           in case h of
                HandshakeSuccess \<Rightarrow>
                  (case onSuccess args of
                     Value ControllerCallback \<Rightarrow>
                       (case readSession c r s1 of
                          (Rejected t, s2) \<Rightarrow> (Rejected t, s2)
                        | (settled, s2) \<Rightarrow> (Fulfilled, s2))
                   | _ \<Rightarrow> (Pending, s1))
              | HandshakeError err \<Rightarrow>
                  (case onError args of
                     Value ControllerCallback \<Rightarrow>
                       (case onError_message err of
                          Inl t \<Rightarrow> (Pending, login_onError err s1)
                        | Inr m \<Rightarrow> (Rejected err, login_onError err s1))
                   | _ \<Rightarrow> (Pending, s1))
              | LoginRejects e \<Rightarrow> (Rejected e, s1)))"

definition logout_finally :: "state \<Rightarrow> state" where
  "logout_finally s = (if mounted s then setIdentity None s else s)"

text \<open>
  \<open>logout\<close>: \<open>try { await client.logout() } finally { ... }\<close> has no \<open>catch\<close>, so after the
  \<open>finally\<close> block a rejection of \<open>client.logout()\<close> rejects the promise of \<open>logout\<close>.
\<close>

definition logout :: "bool \<Rightarrow> unit completion \<Rightarrow> state \<Rightarrow> outcome \<times> state" where
  "logout td remote s0 =
     (let s = setError None s0 in
      case client s0 of
        None \<Rightarrow> (Fulfilled, s)
      | Some c \<Rightarrow>
          (let s1 = logout_finally (suspend td s)
           in case remote of
                Returns u \<Rightarrow> (Fulfilled, s1)
              | Throws e \<Rightarrow> (Rejected e, s1)))"

definition refresh :: "session_reply \<Rightarrow> state \<Rightarrow> outcome \<times> state" where
  "refresh r s = (case client s of None \<Rightarrow> (Fulfilled, s) | Some c \<Rightarrow> readSession c r s)"

section \<open>The context value and the hook\<close>

definition principalText :: "identity option \<Rightarrow> string option" where
  "principalText idn =
     (case idn of
        None \<Rightarrow> None
      | Some i \<Rightarrow>
          (case getPrincipal i of
             None \<Rightarrow> None
           | Some (Throws e) \<Rightarrow> None
           | Some (Returns None) \<Rightarrow> None
           | Some (Returns (Some p)) \<Rightarrow>
               (case toText p of Returns t \<Rightarrow> Some t | Throws e \<Rightarrow> None)))"

record IIContextValue =
  ctx_client :: "AuthClient option"
  ctx_identity :: "identity option"
  ctx_isAuthenticated :: bool
  ctx_isInitializing :: bool
  ctx_error :: "string option"
  ctx_principalText :: "string option"

text \<open>The object \<open>value\<close> that a render of the provider builds from the state.\<close>

definition context_value :: "state \<Rightarrow> IIContextValue" where
  "context_value s =
     \<lparr>ctx_client = client s,
      ctx_identity = identity s,
      ctx_isAuthenticated = (identity s \<noteq> None),
      ctx_isInitializing = isInitializing s,
      ctx_error = error s,
      ctx_principalText = principalText (identity s)\<rparr>"

text \<open>
  \<open>useContext(IIContext)\<close>: the value of the nearest enclosing provider (the list holds
  the values of the enclosing providers, innermost first), and the default of
  \<open>createContext\<close>, \<open>undefined\<close>, when there is none.
\<close>

definition useContext :: "IIContextValue list \<Rightarrow> IIContextValue option" where
  "useContext providers = (case providers of [] \<Rightarrow> None | v # vs \<Rightarrow> Some v)"

datatype js_error = Error string

definition useInternetIdentity :: "IIContextValue list \<Rightarrow> js_error + IIContextValue" where
  "useInternetIdentity providers =
     (case useContext providers of
        None \<Rightarrow> Inl (Error ''useInternetIdentity must be used within <InternetIdentityProvider>'')
      | Some ctx \<Rightarrow> Inr ctx)"

section \<open>Run-to-completion steps\<close>

text \<open>
  JavaScript runs the code between two suspension points to its end before anything
  else runs. The steps are those pieces of the provider's code, and the effect's
  cleanup; any interleaving of operations is a list of steps. \<open>OnSuccessCalled\<close> and
  \<open>RefreshCalled\<close> write nothing themselves: they call \<open>readSession\<close>, which suspends at
  once. \<open>ReadSessionAwaited\<close> carries what the awaited \<open>readSession(c)\<close> threw, if it did.
\<close>

datatype step =
    EffectRuns
  | CleanupRuns
  | CreateSettles "AuthClient completion"
  | IsAuthenticatedSettles "bool completion" "identity completion"
  | ReadSessionAwaited "thrown option"
  | LoginCalled
  | OnSuccessCalled
  | OnErrorCalled thrown
  | LogoutCalled
  | LogoutSettles
  | RefreshCalled

fun fire :: "step \<Rightarrow> state \<Rightarrow> state" where
  "fire EffectRuns s = s\<lparr>mounted := True\<rparr>"
| "fire CleanupRuns s = teardown s"
| "fire (CreateSettles created) s =
     (case created of
        Returns c \<Rightarrow> if \<not> mounted s then initialize_finally s else setClient (Some c) s
      | Throws e \<Rightarrow> initialize_finally (initialize_catch e s))"
| "fire (IsAuthenticatedSettles authed got) s = snd (readSession_resume authed got s)"
| "fire (ReadSessionAwaited rej) s =
     (case rej of
        None \<Rightarrow> initialize_finally s
      | Some t \<Rightarrow> initialize_finally (initialize_catch t s))"
| "fire LoginCalled s =
     (let s1 = setError None s in
      case client s of
        None \<Rightarrow> setError (Some ''AuthClient not ready'') s1
      | Some c \<Rightarrow> s1)"
| "fire OnSuccessCalled s = s"
| "fire (OnErrorCalled err) s = login_onError err s"
| "fire LogoutCalled s = setError None s"
| "fire LogoutSettles s = logout_finally s"
| "fire RefreshCalled s = s"

fun run :: "step list \<Rightarrow> state \<Rightarrow> state" where
  "run [] s = s"
| "run (e # es) s = run es (fire e s)"

definition cleanup :: "bool \<Rightarrow> step list" where
  "cleanup td = (if td then [CleanupRuns] else [])"

text \<open>What a promise was rejected with, if it was.\<close>

definition rejection :: "outcome \<Rightarrow> thrown option" where
  "rejection out = (case out of Rejected t \<Rightarrow> Some t | settled \<Rightarrow> None)"


section \<open>Sample replies and states\<close>



definition anonymous_reply :: session_reply where
  "anonymous_reply =
     \<lparr>rs_teardown = False, rs_isAuthenticated = Returns False,
      rs_getIdentity = Returns (Identity None)\<rparr>"

definition alice :: identity where
  "alice = Identity (Some (Returns (Some (Principal (Returns ''abc-def'')))))"

definition authenticated_reply :: session_reply where
  "authenticated_reply =
     \<lparr>rs_teardown = False, rs_isAuthenticated = Returns True, rs_getIdentity = Returns alice\<rparr>"

definition ready_state :: state where
  "ready_state = initialize False (Returns (AuthClient 0)) anonymous_reply False initial_state"

definition signed_in_state :: state where
  "signed_in_state =
     snd (login None ''https://identity.ic0.app'' False HandshakeSuccess authenticated_reply
            ready_state)"

section \<open>Basic facts\<close>

lemmas setters = setClient_def setIdentity_def setInitializing_def setError_def

lemmas ops =
  readSession_def readSession_resume_def readSession_catch_def suspend_def teardown_def
  initialize_def initialize_finally_def initialize_catch_def login_def login_onError_def
  logout_def logout_finally_def refresh_def

lemmas samples =
  anonymous_reply_def authenticated_reply_def alice_def ready_state_def signed_in_state_def
  initial_state_def

lemma ready_state_eq:
  "ready_state =
     \<lparr>client = Some (AuthClient 0), identity = None, isInitializing = False, error = None,
      mounted = True,
      writes = [SetClient (Some (AuthClient 0)), SetIdentity None, SetInitializing False]\<rparr>"
  by (simp add: samples ops setters)

lemma signed_in_state_eq:
  "signed_in_state =
     \<lparr>client = Some (AuthClient 0), identity = Some alice, isInitializing = False, error = None,
      mounted = True,
      writes = [SetClient (Some (AuthClient 0)), SetIdentity None, SetInitializing False,
                SetError None, SetIdentity (Some alice)]\<rparr>"
  by (simp add: signed_in_state_def ready_state_eq authenticated_reply_def ops setters
        login_options_def)

text \<open>Each operation is a run of steps, with the cleanup possibly in between.\<close>

lemma initialize_as_run:
  "initialize td created r td' s =
     run ([EffectRuns] @ cleanup td @ [CreateSettles created] @
          (case created of
             Returns c \<Rightarrow>
               cleanup (rs_teardown r) @
               [IsAuthenticatedSettles (rs_isAuthenticated r) (rs_getIdentity r)] @
               cleanup td' @
               [ReadSessionAwaited
                  (rejection (fst (readSession c r
                     (setClient (Some c) (suspend td (s\<lparr>mounted := True\<rparr>))))))]
           | Throws e \<Rightarrow> [])) s"
  by (auto simp: ops setters cleanup_def rejection_def Let_def
           split: completion.splits sum.splits)

lemma login_as_run:
  "snd (login opts u td h r s) =
     run ([LoginCalled] @
          (case client s of
             None \<Rightarrow> []
           | Some c \<Rightarrow>
               cleanup td @
               (case h of
                  HandshakeSuccess \<Rightarrow>
                    (case onSuccess (login_options opts u) of
                       Value ControllerCallback \<Rightarrow>
                         [OnSuccessCalled] @ cleanup (rs_teardown r) @
                         [IsAuthenticatedSettles (rs_isAuthenticated r) (rs_getIdentity r)]
                     | _ \<Rightarrow> [])
                | HandshakeError err \<Rightarrow>
                    (case onError (login_options opts u) of
                       Value ControllerCallback \<Rightarrow> [OnErrorCalled err]
                     | _ \<Rightarrow> [])
                | LoginRejects e \<Rightarrow> []))) s"
  by (auto simp: login_def readSession_def suspend_def teardown_def setters cleanup_def Let_def
           split: option.splits handshake.splits callback.splits property.splits prod.splits
                  outcome.splits sum.splits)

lemma logout_as_run:
  "snd (logout td remote s) =
     run ([LogoutCalled] @
          (case client s of None \<Rightarrow> [] | Some c \<Rightarrow> cleanup td @ [LogoutSettles])) s"
  by (auto simp: ops setters cleanup_def Let_def split: completion.splits option.splits)

lemma refresh_as_run:
  "snd (refresh r s) =
     run ([RefreshCalled] @
          (case client s of
             None \<Rightarrow> []
           | Some c \<Rightarrow>
               cleanup (rs_teardown r) @
               [IsAuthenticatedSettles (rs_isAuthenticated r) (rs_getIdentity r)])) s"
  by (auto simp: refresh_def readSession_def suspend_def teardown_def cleanup_def
           split: option.splits)

text \<open>What the pieces of the operations leave alone.\<close>

lemma suspend_simps:
  "mounted (suspend td s) = (mounted s \<and> \<not> td)"
  "isInitializing (suspend td s) = isInitializing s"
  "writes (suspend td s) = writes s"
  by (simp_all add: suspend_def teardown_def)



lemma readSession_flag:
  "mounted (snd (readSession c r s)) = (mounted s \<and> \<not> rs_teardown r)"
  "isInitializing (snd (readSession c r s)) = isInitializing s"
  "\<exists>ws. writes (snd (readSession c r s)) = writes s @ ws \<and> filter is_SetInitializing ws = []"
  by (auto simp: ops setters split: completion.splits sum.splits)

lemma initialize_catch_flag:
  "mounted (initialize_catch e s) = mounted s"
  "isInitializing (initialize_catch e s) = isInitializing s"
  "\<exists>ws. writes (initialize_catch e s) = writes s @ ws \<and> filter is_SetInitializing ws = []"
  by (auto simp: initialize_catch_def setters split: sum.splits)

section \<open>Writes after the cleanup\<close>

text \<open>
  The continuations that test \<open>mounted.current\<close> write nothing once the cleanup has run:
  the one of \<open>readSession\<close>, those of the effect's asynchronous block, and the \<open>finally\<close>
  block of \<open>logout\<close>.
\<close>

lemma continuations_silent_after_teardown:
  assumes "\<not> mounted s"
  shows "readSession_resume authed got s = (Fulfilled, s)"
    and "initialize_finally s = s"
    and "initialize_catch e s = s"
    and "logout_finally s = s"
    and "fire (CreateSettles created) s = s"
    and "fire (ReadSessionAwaited rej) s = s"
  using assms by (auto simp: ops split: completion.splits option.splits)

text \<open>
  C1. The claim: once the cleanup has run, no continuation writes a state field. The
  \<open>onError\<close> callback of \<open>login\<close> does not test \<open>mounted.current\<close>. Here \<open>login\<close> is
  called in a state with a handle, the cleanup runs while the handshake is pending, and
  the client then reports the error \<open>denied\<close>: the callback runs in a state whose
  \<open>mounted\<close> is false and calls \<open>setError\<close> there, and the error is stored.
\<close>

theorem login_onError_writes_after_teardown:
  "snd (login None ''https://identity.ic0.app'' True (HandshakeError (ThrownString ''denied''))
          anonymous_reply ready_state)
     = login_onError (ThrownString ''denied'') (teardown (setError None ready_state))
   \<and> \<not> mounted (teardown (setError None ready_state))
   \<and> new_writes (teardown (setError None ready_state))
        (login_onError (ThrownString ''denied'') (teardown (setError None ready_state)))
     = [SetError (Some ''denied'')]
   \<and> error (snd (login None ''https://identity.ic0.app'' True
                    (HandshakeError (ThrownString ''denied'')) anonymous_reply ready_state))
     = Some ''denied''"
  by (simp add: ready_state_eq ops setters login_options_def new_writes_def onError_message_def)

section \<open>\<open>logout\<close>\<close>

text \<open>
  C2, as stated, fails: a failure of the remote logout is not swallowed. After a login,
  \<open>logout\<close> with a failing \<open>client.logout()\<close> ends rejected with that failure.
\<close>

theorem logout_remote_failure_rejects:
  "fst (logout False (Throws (ThrownValue (Inr (Some ''offline'')) (Inr ''Error: offline'')))
          signed_in_state)
     = Rejected (ThrownValue (Inr (Some ''offline'')) (Inr ''Error: offline''))"
  by (simp add: signed_in_state_eq ops setters)

text \<open>
  C2, amended. With a handle present and no cleanup before the \<open>finally\<close> block runs,
  \<open>logout\<close> clears the identity (so \<open>isAuthenticated\<close> is false), whether the remote
  logout succeeds or fails; the promise of \<open>logout\<close> is fulfilled when the remote call
  succeeds and rejected with the remote failure when it fails. The \<open>finally\<close> block
  clears the identity in whatever state it runs, so also when other operations ran
  while the remote logout was pending.
\<close>

theorem logout_clears_session:
  assumes "client s = Some c" and "mounted s" and "\<not> td"
  shows "identity (snd (logout td remote s)) = None
       \<and> \<not> ctx_isAuthenticated (context_value (snd (logout td remote s)))
       \<and> fst (logout td remote s)
           = (case remote of Returns u \<Rightarrow> Fulfilled | Throws e \<Rightarrow> Rejected e)
       \<and> (mounted s' \<longrightarrow> identity (fire LogoutSettles s') = None)"
  using assms
  by (simp add: ops setters context_value_def split: completion.splits)

text \<open>
  C2, a run of the amended statement: logging out of the session of \<open>alice\<close> while
  the remote call fails.
\<close>

theorem logout_clears_session_witness:
  "client signed_in_state = Some (AuthClient 0) \<and> mounted signed_in_state
   \<and> identity signed_in_state \<noteq> None
   \<and> identity (snd (logout False (Throws (ThrownString ''offline'')) signed_in_state)) = None
   \<and> fst (logout False (Throws (ThrownString ''offline'')) signed_in_state)
       = Rejected (ThrownString ''offline'')"
  using logout_clears_session [of signed_in_state "AuthClient 0" False
      "Throws (ThrownString ''offline'')"]
  by (simp add: signed_in_state_eq)

section \<open>\<open>login\<close>\<close>

text \<open>
  Without callbacks of the caller in the options, \<open>login\<close> turns the handshake into one
  outcome: after the session read on success, after \<open>setError\<close> on a handshake error.
\<close>

lemma login_without_caller_callbacks:
  assumes "client s = Some c"
    and "opts = None \<or> (\<exists>p. opts = Some p \<and> onSuccess p = Absent \<and> onError p = Absent)"
  shows "login opts u td h r s =
     (case h of
        HandshakeSuccess \<Rightarrow>
          (case readSession c r (suspend td (setError None s)) of
             (Rejected t, s2) \<Rightarrow> (Rejected t, s2)
           | (settled, s2) \<Rightarrow> (Fulfilled, s2))
      | HandshakeError err \<Rightarrow>
          (case onError_message err of
             Inl t \<Rightarrow> (Pending, suspend td (setError None s))
           | Inr m \<Rightarrow> (Rejected err, setError (Some m) (suspend td (setError None s))))
      | LoginRejects e \<Rightarrow> (Rejected e, suspend td (setError None s)))"
  using assms
  by (auto simp: login_def login_options_def login_onError_def spread_def Let_def
           split: handshake.splits sum.splits)

text \<open>
  C3. The claim: callbacks that the caller puts into the options are intercepted, and
  the promise of \<open>login\<close> is fulfilled when the handshake succeeds, after the session
  read. The options of the caller are spread after the callbacks of \<open>login\<close> and replace
  them. Here the caller passes an \<open>onSuccess\<close> of its own and the handshake succeeds with
  the session of \<open>alice\<close>: the promise is never settled, no session is read, and the
  identity stays empty. Likewise with an \<open>onError\<close> of the caller and a handshake error:
  the promise is never settled and no error is stored.
\<close>

theorem login_caller_onSuccess_never_settles:
  "login (Some \<lparr>identityProvider = Absent, maxTimeToLive = Absent,
                 onSuccess = Value (CallerCallback 0), onError = Absent\<rparr>)
      ''https://identity.ic0.app'' False HandshakeSuccess authenticated_reply ready_state
     = (Pending, setError None ready_state)
   \<and> identity (setError None ready_state) = None
   \<and> login (Some \<lparr>identityProvider = Absent, maxTimeToLive = Absent,
                   onSuccess = Absent, onError = Value (CallerCallback 1)\<rparr>)
        ''https://identity.ic0.app'' False (HandshakeError (ThrownString ''denied''))
        authenticated_reply ready_state
       = (Pending, setError None ready_state)
   \<and> error (setError None ready_state) = None"
  by (simp add: ready_state_eq ops setters login_options_def spread_def)

text \<open>
  C6. Called while there is no handle, \<open>login\<close> is fulfilled, whatever the external
  client would have answered (it is not asked): it calls \<open>setError(null)\<close> and then
  \<open>setError('AuthClient not ready')\<close>, and nothing else, so the identity is unchanged.
\<close>

theorem login_without_client:
  assumes "client s = None"
  shows "login opts u td h r s =
           (Fulfilled, setError (Some ''AuthClient not ready'') (setError None s))
       \<and> new_writes s (snd (login opts u td h r s))
           = [SetError None, SetError (Some ''AuthClient not ready'')]
       \<and> error (snd (login opts u td h r s)) = Some ''AuthClient not ready''
       \<and> identity (snd (login opts u td h r s)) = identity s"
  using assms by (simp add: login_def setters new_writes_def)

text \<open>
  C6, a run: \<open>login\<close> in the initial state, before any handle is stored.
\<close>

theorem login_without_client_witness:
  "client initial_state = None
   \<and> login None ''https://identity.ic0.app'' False HandshakeSuccess authenticated_reply initial_state
       = (Fulfilled, setError (Some ''AuthClient not ready'') (setError None initial_state))
   \<and> identity (snd (login None ''https://identity.ic0.app'' False HandshakeSuccess
                      authenticated_reply initial_state)) = None"
  using login_without_client [of initial_state None "''https://identity.ic0.app''" False
      HandshakeSuccess authenticated_reply]
  by (simp add: initial_state_def setters)

text \<open>
  C9. When the handshake ends with an error, \<open>login\<close> leaves the identity as it was, and
  the handle and the initialising flag too: every setter it calls is \<open>setError\<close>.
\<close>

theorem login_handshake_error_keeps_session:
  "identity (snd (login opts u td (HandshakeError err) r s)) = identity s
   \<and> client (snd (login opts u td (HandshakeError err) r s)) = client s
   \<and> isInitializing (snd (login opts u td (HandshakeError err) r s)) = isInitializing s
   \<and> (\<forall>w \<in> set (new_writes s (snd (login opts u td (HandshakeError err) r s))).
         \<exists>m. w = SetError m)"
  by (auto simp: login_def login_onError_def suspend_def teardown_def setters new_writes_def
        Let_def split: option.splits callback.splits property.splits sum.splits)

text \<open>
  C9, a run: a failed login in the session of \<open>alice\<close> keeps her identity.
\<close>

theorem login_handshake_error_keeps_session_witness:
  "identity (snd (login None ''https://identity.ic0.app'' False
                    (HandshakeError (ThrownString ''denied'')) authenticated_reply
                    signed_in_state)) = Some alice
   \<and> new_writes signed_in_state
        (snd (login None ''https://identity.ic0.app'' False
                (HandshakeError (ThrownString ''denied'')) authenticated_reply signed_in_state))
       = [SetError None, SetError (Some ''denied'')]"
  using login_handshake_error_keeps_session [of None "''https://identity.ic0.app''" False
      "ThrownString ''denied''" authenticated_reply signed_in_state]
  by (simp add: signed_in_state_eq login_def login_options_def login_onError_def
        onError_message_def suspend_def setters new_writes_def)

section \<open>The initialising flag\<close>

lemma fire_keeps_not_initializing: "\<not> isInitializing s \<Longrightarrow> \<not> isInitializing (fire e s)"
  by (cases e)
     (auto simp: ops setters Let_def split: completion.splits option.splits sum.splits)

lemma run_keeps_not_initializing: "\<not> isInitializing s \<Longrightarrow> \<not> isInitializing (run es s)"
  by (induction es arbitrary: s) (auto simp: fire_keeps_not_initializing)

text \<open>
  Up to its \<open>finally\<close> block the asynchronous block leaves the flag alone and never
  calls \<open>setInitializing\<close>.
\<close>

lemma initialize_before_finally:
  "\<exists>s1 ws. initialize td created r td' s = initialize_finally s1
      \<and> isInitializing s1 = isInitializing s
      \<and> writes s1 = writes s @ ws \<and> filter is_SetInitializing ws = []"
proof (cases created)
  case (Throws e)
  let ?s = "suspend td (s\<lparr>mounted := True\<rparr>)"
  obtain ws where "writes (initialize_catch e ?s) = writes ?s @ ws"
    "filter is_SetInitializing ws = []"
    using initialize_catch_flag(3) by blast
  then show ?thesis
    using Throws by (auto simp: initialize_def initialize_catch_flag suspend_simps)
next
  case (Returns c)
  let ?s = "suspend td (s\<lparr>mounted := True\<rparr>)"
  show ?thesis
  proof (cases "mounted ?s")
    case False
    then show ?thesis
      using Returns by (auto simp: initialize_def suspend_simps)
  next
    case True
    let ?s0 = "setClient (Some c) ?s"
    obtain out s1 where rs: "readSession c r ?s0 = (out, s1)"
      by (cases "readSession c r ?s0") blast
    have s0: "isInitializing ?s0 = isInitializing s" "writes ?s0 = writes s @ [SetClient (Some c)]"
      by (simp_all add: setClient_def suspend_simps)
    obtain ws where ws: "writes s1 = writes ?s0 @ ws" "filter is_SetInitializing ws = []"
      using readSession_flag(3) [of c r ?s0] rs by auto
    have i1: "isInitializing s1 = isInitializing s"
      using readSession_flag(2) [of c r ?s0] rs s0 by simp
    show ?thesis
    proof (cases out)
      case (Rejected t)
      obtain ws' where ws': "writes (initialize_catch t (suspend td' s1)) = writes s1 @ ws'"
        "filter is_SetInitializing ws' = []"
        using initialize_catch_flag(3) [of t "suspend td' s1"] by (auto simp: suspend_simps)
      have "initialize td created r td' s
              = initialize_finally (initialize_catch t (suspend td' s1))"
        using Returns True rs Rejected by (simp add: initialize_def)
      moreover have "isInitializing (initialize_catch t (suspend td' s1)) = isInitializing s"
        using i1 by (simp add: initialize_catch_flag suspend_simps)
      moreover have "writes (initialize_catch t (suspend td' s1))
                       = writes s @ ([SetClient (Some c)] @ ws @ ws')"
        using ws ws' s0 by simp
      moreover have "filter is_SetInitializing ([SetClient (Some c)] @ ws @ ws') = []"
        using ws ws' by simp
      ultimately show ?thesis by blast
    next
      case Fulfilled
      have "initialize td created r td' s = initialize_finally (suspend td' s1)"
        using Returns True rs Fulfilled by (simp add: initialize_def)
      moreover have "isInitializing (suspend td' s1) = isInitializing s"
        using i1 by (simp add: suspend_simps)
      moreover have "writes (suspend td' s1) = writes s @ ([SetClient (Some c)] @ ws)"
        using ws s0 by (simp add: suspend_simps)
      moreover have "filter is_SetInitializing ([SetClient (Some c)] @ ws) = []"
        using ws by simp
      ultimately show ?thesis by blast
    next
      case Pending
      have "initialize td created r td' s = initialize_finally (suspend td' s1)"
        using Returns True rs Pending by (simp add: initialize_def)
      moreover have "isInitializing (suspend td' s1) = isInitializing s"
        using i1 by (simp add: suspend_simps)
      moreover have "writes (suspend td' s1) = writes s @ ([SetClient (Some c)] @ ws)"
        using ws s0 by (simp add: suspend_simps)
      moreover have "filter is_SetInitializing ([SetClient (Some c)] @ ws) = []"
        using ws by simp
      ultimately show ?thesis by blast
    qed
  qed
qed

lemma initialize_mounted_finishes:
  assumes "mounted (initialize td created r td' s)"
  shows "\<not> isInitializing (initialize td created r td' s)"
    and "last (writes (initialize td created r td' s)) = SetInitializing False"
    and "filter is_SetInitializing (new_writes s (initialize td created r td' s))
           = [SetInitializing False]"
proof -
  obtain s1 ws where s1: "initialize td created r td' s = initialize_finally s1"
    "isInitializing s1 = isInitializing s" "writes s1 = writes s @ ws"
    "filter is_SetInitializing ws = []"
    using initialize_before_finally by blast
  have m: "mounted s1"
    using assms s1(1) by (simp add: initialize_finally_def split: if_splits)
  then have eq: "initialize td created r td' s = setInitializing False s1"
    using s1(1) by (simp add: initialize_finally_def)
  show "\<not> isInitializing (initialize td created r td' s)"
    by (simp add: eq setInitializing_def)
  show "last (writes (initialize td created r td' s)) = SetInitializing False"
    by (simp add: eq setInitializing_def)
  show "filter is_SetInitializing (new_writes s (initialize td created r td' s))
          = [SetInitializing False]"
    using s1(3,4) by (simp add: eq setInitializing_def new_writes_def)
qed

lemma initialize_unmounted_silent:
  assumes "\<not> mounted (initialize td created r td' s)"
  shows "isInitializing (initialize td created r td' s) = isInitializing s"
    and "filter is_SetInitializing (new_writes s (initialize td created r td' s)) = []"
proof -
  obtain s1 ws where s1: "initialize td created r td' s = initialize_finally s1"
    "isInitializing s1 = isInitializing s" "writes s1 = writes s @ ws"
    "filter is_SetInitializing ws = []"
    using initialize_before_finally by blast
  have m: "\<not> mounted s1"
    using assms s1(1) by (simp add: initialize_finally_def setInitializing_def split: if_splits)
  then have eq: "initialize td created r td' s = s1"
    using s1(1) by (simp add: initialize_finally_def)
  show "isInitializing (initialize td created r td' s) = isInitializing s"
    by (simp add: eq s1(2))
  show "filter is_SetInitializing (new_writes s (initialize td created r td' s)) = []"
    using s1(3,4) by (simp add: eq new_writes_def)
qed

text \<open>
  C4, as stated, fails: the \<open>finally\<close> block sets the flag only while \<open>mounted.current\<close>
  holds. When the cleanup runs while \<open>AuthClient.create()\<close> is awaited, the asynchronous
  block ends with the flag still true.
\<close>

theorem initialize_teardown_keeps_initializing:
  "isInitializing (initialize True (Returns (AuthClient 0)) anonymous_reply False initial_state)"
  by (simp add: samples ops setters)

text \<open>
  C4, amended. The flag is true in the initial state. When the cleanup has not run by
  the end of the initialisation, the flag is false then, whatever the creation of the
  handle and the session read gave; \<open>setInitializing(false)\<close> is the last setter call and
  the only call of \<open>setInitializing\<close> in that run. When the cleanup has run by then, the
  initialisation does not call \<open>setInitializing\<close> and leaves the flag as it was. No step
  of any operation, in any order, makes a false flag true.
\<close>

theorem initializing_flag_lifecycle:
  "isInitializing initial_state
   \<and> (mounted (initialize td created r td' s) \<longrightarrow>
        \<not> isInitializing (initialize td created r td' s)
        \<and> last (writes (initialize td created r td' s)) = SetInitializing False
        \<and> filter is_SetInitializing (new_writes s (initialize td created r td' s))
            = [SetInitializing False])
   \<and> (\<not> mounted (initialize td created r td' s) \<longrightarrow>
        isInitializing (initialize td created r td' s) = isInitializing s
        \<and> filter is_SetInitializing (new_writes s (initialize td created r td' s)) = [])
   \<and> (\<not> isInitializing s \<longrightarrow> \<not> isInitializing (run es s))"
  using initialize_mounted_finishes [of td created r td' s]
    initialize_unmounted_silent [of td created r td' s]
    run_keeps_not_initializing [of s es]
  by (simp add: initial_state_def)

text \<open>
  C4, a run of the amended statement: an initialisation without cleanup ends with the
  flag false, and a later \<open>login\<close> call and a second run of the effect whose creation
  fails leave it false; an initialisation whose cleanup runs after the session read
  never calls \<open>setInitializing\<close> and ends with the flag true.
\<close>

theorem initializing_flag_lifecycle_witness:
  "mounted (initialize False (Returns (AuthClient 0)) anonymous_reply False initial_state)
   \<and> \<not> isInitializing
         (initialize False (Returns (AuthClient 0)) anonymous_reply False initial_state)
   \<and> \<not> isInitializing
         (run [LoginCalled, EffectRuns, CreateSettles (Throws (ThrownString ''x''))]
            (initialize False (Returns (AuthClient 0)) anonymous_reply False initial_state))
   \<and> \<not> mounted (initialize False (Returns (AuthClient 0)) anonymous_reply True initial_state)
   \<and> isInitializing
         (initialize False (Returns (AuthClient 0)) anonymous_reply True initial_state)
   \<and> filter is_SetInitializing
         (new_writes initial_state
            (initialize False (Returns (AuthClient 0)) anonymous_reply True initial_state)) = []"
proof -
  let ?s = "initialize False (Returns (AuthClient 0)) anonymous_reply False initial_state"
  let ?u = "initialize False (Returns (AuthClient 0)) anonymous_reply True initial_state"
  let ?es = "[LoginCalled, EffectRuns, CreateSettles (Throws (ThrownString ''x''))]"
  have m: "mounted ?s"
    by (simp add: ready_state_def [symmetric] ready_state_eq)
  have fin: "\<not> isInitializing ?s"
    using m initializing_flag_lifecycle [of False "Returns (AuthClient 0)" anonymous_reply False
        initial_state ?es]
    by blast
  have later: "\<not> isInitializing (run ?es ?s)"
    using fin initializing_flag_lifecycle [of False "Returns (AuthClient 0)" anonymous_reply
        False ?s ?es]
    by blast
  have u: "\<not> mounted ?u"
    by (simp add: samples ops setters)
  have start: "isInitializing initial_state"
    by (simp add: initial_state_def)
  have "isInitializing ?u \<and> filter is_SetInitializing (new_writes initial_state ?u) = []"
    using u start initializing_flag_lifecycle [of False "Returns (AuthClient 0)" anonymous_reply
        True initial_state ?es]
    by blast
  with m fin later u show ?thesis by blast
qed

section \<open>The snapshot after the initialisation\<close>











section \<open>\<open>readSession\<close> and \<open>refresh\<close>\<close>




text \<open>
  C10. A session read that succeeds (the client answers false, or true with an
  identity) leaves the error as it was, and so does \<open>refresh\<close>: neither clears a stored
  message.
\<close>

theorem readSession_success_keeps_error:
  assumes "rs_isAuthenticated r = Returns a"
    and "a \<longrightarrow> (\<exists>i. rs_getIdentity r = Returns i)"
  shows "error (snd (readSession c r s)) = error s \<and> error (snd (refresh r s)) = error s"
  using assms by (auto simp: ops setters split: option.splits)

text \<open>
  C10, a run: the message \<open>denied\<close> of a failed login is still there after a session
  read that finds \<open>alice\<close> and after a \<open>refresh\<close> that finds no session.
\<close>

theorem readSession_success_keeps_error_witness:
  "error (snd (readSession (AuthClient 0) authenticated_reply
            (snd (login None ''https://identity.ic0.app'' False
                    (HandshakeError (ThrownString ''denied'')) authenticated_reply ready_state))))
     = Some ''denied''
   \<and> error (snd (refresh anonymous_reply
            (snd (login None ''https://identity.ic0.app'' False
                    (HandshakeError (ThrownString ''denied'')) authenticated_reply ready_state))))
     = Some ''denied''"
  using readSession_success_keeps_error [of authenticated_reply True "AuthClient 0"
      "snd (login None ''https://identity.ic0.app'' False
              (HandshakeError (ThrownString ''denied'')) authenticated_reply ready_state)"]
    readSession_success_keeps_error [of anonymous_reply False "AuthClient 0"
      "snd (login None ''https://identity.ic0.app'' False
              (HandshakeError (ThrownString ''denied'')) authenticated_reply ready_state)"]
  by (simp add: ready_state_eq authenticated_reply_def anonymous_reply_def alice_def login_def
        login_options_def login_onError_def onError_message_def suspend_def setters)

section \<open>The hook outside a provider\<close>

text \<open>
  C8. Called where no \<open>InternetIdentityProvider\<close> encloses the caller, the hook throws
  its error; it returns no context value at all, hence no default one.
\<close>

theorem useInternetIdentity_outside_provider:
  "useInternetIdentity [] =
     Inl (Error ''useInternetIdentity must be used within <InternetIdentityProvider>'')
   \<and> useInternetIdentity [] \<noteq> Inr v"
  by (simp add: useInternetIdentity_def useContext_def)

end
